theory Spec2Isabelle
  imports Complex_Main "HOL-Library.Signed_Division"
begin

section \<open>Time accounting of the work-hour tracker\<close>

text \<open>
  The tracker keeps minute counts in TypeScript \<open>number\<close>s.  Every minute count of the
  data model is a whole number (the entry type stores whole minutes), and the binary64
  arithmetic of the language is exact on integers of magnitude below \<open>2 ^ 53\<close>, so minute
  counts are modelled as \<open>int\<close>.  \<open>Math.floor (x / 2)\<close> is then \<open>x div 2\<close> (rounding
  towards minus infinity), and the remainder operator \<open>%\<close> is the truncating \<open>smod\<close>,
  which takes the sign of its left operand.
\<close>

subsection \<open>Night bonus minutes\<close>

text \<open>
  The \<open>for\<close> loop of \<open>calcNightMinutes\<close>: \<open>t\<close> is the loop variable, \<open>e\<close> the (already
  wrap-adjusted) end, and the last argument the running counter \<open>nightMinutes\<close>.
\<close>

function nightLoop :: "int \<Rightarrow> int \<Rightarrow> int \<Rightarrow> int \<Rightarrow> int \<Rightarrow> int" where
  "nightLoop t e pauseStart pauseEnd nightMinutes =
     (if t < e then
        (if t \<ge> pauseStart \<and> t < pauseEnd then
           nightLoop (t + 1) e pauseStart pauseEnd nightMinutes
         else
           (let minuteOfDay = t smod 1440 in
            if minuteOfDay < 360 \<or> minuteOfDay \<ge> 1200
            then nightLoop (t + 1) e pauseStart pauseEnd (nightMinutes + 1)
            else nightLoop (t + 1) e pauseStart pauseEnd nightMinutes))
      else nightMinutes)"
  by pat_completeness auto
termination
  by (relation "measure (\<lambda>(t, e, ps, pe, n). nat (e - t))") auto

declare nightLoop.simps [simp del]

definition calcNightMinutes :: "int \<Rightarrow> int \<Rightarrow> int \<Rightarrow> int" where
  "calcNightMinutes start endMin pauseMin =
     (let e = (if endMin < start then endMin + 1440 else endMin);
          totalWorked = e - start
      in if totalWorked \<le> 0 then 0
         else
           (let pauseStart = start + totalWorked div 2 - pauseMin div 2;
                pauseEnd = pauseStart + pauseMin
            in nightLoop start e pauseStart pauseEnd 0))"

text \<open>
  The specification's side of the night-bonus algorithm, written from its words: the
  number of integer minutes \<open>t\<close> of \<open>[start, e)\<close> outside the pause window whose
  minute of day \<open>t mod 1440\<close> lies before 06:00 or at or after 20:00.  Here \<open>mod\<close> is the
  mathematical one, with results in \<open>[0, 1439]\<close>.
\<close>

definition specNightCount :: "int \<Rightarrow> int \<Rightarrow> int \<Rightarrow> int \<Rightarrow> int" where
  "specNightCount start e pauseStart pauseEnd =
     int (length (filter
       (\<lambda>t. \<not> (pauseStart \<le> t \<and> t < pauseEnd) \<and> (t mod 1440 < 360 \<or> t mod 1440 \<ge> 1200))
       [start..e - 1]))"

definition specNightMinutes :: "int \<Rightarrow> int \<Rightarrow> int \<Rightarrow> int" where
  "specNightMinutes start endMin pauseMinutes =
     (let e = (if endMin < start then endMin + 1440 else endMin) in
      if e - start \<le> 0 then 0
      else
        (let pauseStart = start + (e - start) div 2 - pauseMinutes div 2;
             pauseEnd = pauseStart + pauseMinutes
         in specNightCount start e pauseStart pauseEnd))"


subsection \<open>Numbers read from strings\<close>

text \<open>
  \<open>parseTime\<close> applies the built-in \<open>Number\<close> to the pieces of a string.  A string is a
  list of code units below 256 here.  The value of \<open>Number\<close> is a binary64 number:
  \<open>NaN\<close>, an infinity, or a finite value.  Finite values are kept as exact rationals;
  the rounding of the format is modelled only where it decides finiteness (a literal
  at or beyond \<open>2 ^ 1024 - 2 ^ 970\<close> becomes an infinity), and it is the identity on
  integers of magnitude below \<open>2 ^ 53\<close>.
\<close>

datatype number = NaN | PosInfinity | NegInfinity | Finite rat

datatype error = InvalidFormat

definition negateNumber :: "number \<Rightarrow> number" where
  "negateNumber n =
     (case n of NaN \<Rightarrow> NaN | PosInfinity \<Rightarrow> NegInfinity | NegInfinity \<Rightarrow> PosInfinity
      | Finite v \<Rightarrow> Finite (- v))"

definition roundToNumber :: "rat \<Rightarrow> number" where
  "roundToNumber v =
     (if v \<ge> 2 ^ 1024 - 2 ^ 970 then PosInfinity
      else if v \<le> - (2 ^ 1024 - 2 ^ 970) then NegInfinity
      else Finite v)"

text \<open>White space and line terminators that \<open>Number\<close> strips from both ends.\<close>

definition isStrWhiteSpaceChar :: "char \<Rightarrow> bool" where
  "isStrWhiteSpaceChar c \<longleftrightarrow> (of_char c :: nat) \<in> {9, 10, 11, 12, 13, 32, 160}"

definition trimString :: "string \<Rightarrow> string" where
  "trimString s = rev (dropWhile isStrWhiteSpaceChar (rev (dropWhile isStrWhiteSpaceChar s)))"

definition isDecimalDigit :: "char \<Rightarrow> bool" where
  "isDecimalDigit c \<longleftrightarrow> 48 \<le> (of_char c :: nat) \<and> (of_char c :: nat) \<le> 57"

definition digitValue :: "char \<Rightarrow> nat" where
  "digitValue c =
     (let n = (of_char c :: nat) in
      if 48 \<le> n \<and> n \<le> 57 then n - 48
      else if 97 \<le> n \<and> n \<le> 102 then n - 87
      else if 65 \<le> n \<and> n \<le> 70 then n - 55
      else 16)"

definition isDigitOfRadix :: "nat \<Rightarrow> char \<Rightarrow> bool" where
  "isDigitOfRadix r c \<longleftrightarrow> digitValue c < r"

definition digitsValue :: "nat \<Rightarrow> string \<Rightarrow> nat" where
  "digitsValue r ds = foldl (\<lambda>a c. r * a + digitValue c) 0 ds"

definition scale10 :: "rat \<Rightarrow> int \<Rightarrow> rat" where
  "scale10 v k = (if k \<ge> 0 then v * 10 ^ nat k else v / 10 ^ nat (- k))"

text \<open>The optional exponent part of a decimal literal; \<open>None\<close> when the text is no exponent.\<close>

definition exponentPart :: "string \<Rightarrow> int option" where
  "exponentPart s =
     (case s of
        [] \<Rightarrow> Some 0
      | c # r \<Rightarrow>
          if c = CHR ''e'' \<or> c = CHR ''E'' then
            (let neg = (r \<noteq> [] \<and> hd r = CHR ''-'');
                 ds = (if r \<noteq> [] \<and> (hd r = CHR ''-'' \<or> hd r = CHR ''+'') then tl r else r)
             in if ds \<noteq> [] \<and> list_all isDecimalDigit ds
                then Some (if neg then - int (digitsValue 10 ds) else int (digitsValue 10 ds))
                else None)
          else None)"

definition strUnsignedDecimalLiteral :: "string \<Rightarrow> number" where
  "strUnsignedDecimalLiteral s =
     (if s = ''Infinity'' then PosInfinity
      else
        (let ip = takeWhile isDecimalDigit s;
             r1 = dropWhile isDecimalDigit s;
             hasDot = (r1 \<noteq> [] \<and> hd r1 = CHR ''.'');
             fp = (if hasDot then takeWhile isDecimalDigit (tl r1) else []);
             r2 = (if hasDot then dropWhile isDecimalDigit (tl r1) else r1)
         in if ip = [] \<and> fp = [] then NaN
            else
              (case exponentPart r2 of
                 None \<Rightarrow> NaN
               | Some k \<Rightarrow>
                   roundToNumber
                     (scale10 (of_nat (digitsValue 10 ip)
                               + of_nat (digitsValue 10 fp) / 10 ^ length fp) k))))"

text \<open>Binary, octal and hexadecimal integer literals; \<open>None\<close> when the prefix is none of theirs.\<close>

definition radixOfPrefix :: "char \<Rightarrow> nat" where
  "radixOfPrefix c =
     (if c = CHR ''x'' \<or> c = CHR ''X'' then 16
      else if c = CHR ''o'' \<or> c = CHR ''O'' then 8
      else if c = CHR ''b'' \<or> c = CHR ''B'' then 2
      else 0)"

definition nonDecimalIntegerLiteral :: "string \<Rightarrow> number option" where
  "nonDecimalIntegerLiteral s =
     (case s of
        z # x # ds \<Rightarrow>
          if z = CHR ''0'' \<and> radixOfPrefix x \<noteq> 0 then
            (if ds \<noteq> [] \<and> list_all (isDigitOfRadix (radixOfPrefix x)) ds
             then Some (roundToNumber (of_nat (digitsValue (radixOfPrefix x) ds)))
             else Some NaN)
          else None
      | _ \<Rightarrow> None)"

definition StringToNumber :: "string \<Rightarrow> number" where
  "StringToNumber str =
     (let s = trimString str in
      case s of
        [] \<Rightarrow> Finite 0
      | c # r \<Rightarrow>
          if c = CHR ''+'' then strUnsignedDecimalLiteral r
          else if c = CHR ''-'' then negateNumber (strUnsignedDecimalLiteral r)
          else (case nonDecimalIntegerLiteral s of
                  Some n \<Rightarrow> n
                | None \<Rightarrow> strUnsignedDecimalLiteral s))"

text \<open>\<open>Number (v)\<close> for a string or \<open>undefined\<close> (\<open>None\<close>): \<open>undefined\<close> gives \<open>NaN\<close>.\<close>

definition Number :: "string option \<Rightarrow> number" where
  "Number v = (case v of None \<Rightarrow> NaN | Some s \<Rightarrow> StringToNumber s)"

subsection \<open>Splitting, indexing, printing and padding\<close>

text \<open>\<open>str.split (sep)\<close> for a separator of one code unit: never an empty array.\<close>

fun jsSplit :: "char \<Rightarrow> string \<Rightarrow> string list" where
  "jsSplit sep [] = [[]]"
| "jsSplit sep (c # cs) =
     (if c = sep then [] # jsSplit sep cs
      else (case jsSplit sep cs of
              [] \<Rightarrow> [[c]]
            | p # ps \<Rightarrow> (c # p) # ps))"

text \<open>\<open>parts[i]\<close>: \<open>undefined\<close> beyond the end of the array.\<close>

definition index :: "'a list \<Rightarrow> nat \<Rightarrow> 'a option" where
  "index xs i = (if i < length xs then Some (xs ! i) else None)"

definition digitChar :: "nat \<Rightarrow> char" where
  "digitChar d = char_of (48 + d)"

function decimalDigits :: "nat \<Rightarrow> string" where
  "decimalDigits n =
     (if n < 10 then [digitChar n] else decimalDigits (n div 10) @ [digitChar (n mod 10)])"
  by pat_completeness auto
termination
  by (relation "measure (\<lambda>n. n)") auto

declare decimalDigits.simps [simp del]

text \<open>\<open>n.toString ()\<close> for an integer of magnitude below \<open>10 ^ 21\<close>.\<close>

definition toString :: "int \<Rightarrow> string" where
  "toString n = (if n < 0 then CHR ''-'' # decimalDigits (nat (- n)) else decimalDigits (nat n))"

text \<open>\<open>s.padStart (n, c)\<close> for a padding string of one code unit.\<close>

definition padStart :: "nat \<Rightarrow> char \<Rightarrow> string \<Rightarrow> string" where
  "padStart n c s = replicate (n - length s) c @ s"

subsection \<open>Time utilities\<close>

text \<open>
  \<open>parseTime\<close> throws unless both \<open>h\<close> and \<open>m\<close> pass \<open>Number.isFinite\<close>, that is,
  unless both are finite values; the sum \<open>h * 60 + m\<close> is rounded like a literal.
  \<open>formatTime\<close> is modelled on integers.
\<close>

definition parseTime :: "string \<Rightarrow> error + number" where
  "parseTime str =
     (let parts = jsSplit CHR '':'' str;
          h = Number (index parts 0);
          m = Number (index parts 1)
      in case (h, m) of
           (Finite hv, Finite mv) \<Rightarrow> Inr (roundToNumber (hv * 60 + mv))
         | _ \<Rightarrow> Inl InvalidFormat)"

definition formatTime :: "int \<Rightarrow> string" where
  "formatTime minutes =
     (let h = padStart 2 CHR ''0'' (toString (minutes div 60));
          m = padStart 2 CHR ''0'' (toString (minutes smod 60))
      in h @ '':'' @ m)"

subsection \<open>Entries, the summary and the submit handler\<close>

text \<open>
  An \<open>Entry\<close> as the tracker stores it.  The field \<open>type\<close> is a string at run time
  (\<open>normal\<close>, \<open>vacation\<close> or \<open>sick\<close> for entries written by the tracker).
\<close>

record Entry =
  date :: string
  type :: string
  workedMinutes :: int
  nightMinutes :: int

text \<open>
  The numbers \<open>renderSummary\<close> computes; it shows the two sums through \<open>formatTime\<close>
  and the counts through \<open>String\<close>, and those writes are not modelled.
\<close>

record Summary =
  totalWorkedMonth :: int
  totalNightMonth :: int
  daysNormal :: int
  daysVacation :: int
  daysSick :: int
  vacUsedThisYear :: int
  remaining :: int

text \<open>
  \<open>if (!picker.value) picker.value = fallback\<close>: the value of a picker after the first
  two lines of \<open>renderSummary\<close>, where the fallback is taken from the current date.
\<close>

definition pickerValue :: "string \<Rightarrow> string \<Rightarrow> string" where
  "pickerValue v fallback = (if v = [] then fallback else v)"

text \<open>
  \<open>renderSummary\<close> over the cached entries, the values of the year and month pickers,
  the year and month of the current date (as the fallback lines print them) and the
  allowance that \<open>loadAllowance\<close> returned.  \<open>date.slice (0, n)\<close> is \<open>take n\<close>.
\<close>

definition renderSummary ::
  "Entry list \<Rightarrow> string \<Rightarrow> string \<Rightarrow> string \<Rightarrow> string \<Rightarrow> int \<Rightarrow> Summary" where
  "renderSummary entriesCache yearPicker monthOnly nowYear nowMonth allowance =
     (let yearValue = pickerValue yearPicker nowYear;
          monthValue = pickerValue monthOnly nowMonth;
          monthKey = yearValue @ ''-'' @ monthValue;
          yearKey = yearValue;
          monthEntries = filter (\<lambda>e. take 7 (date e) = monthKey) entriesCache;
          yearEntries = filter (\<lambda>e. take 4 (date e) = yearKey) entriesCache;
          vacUsed = int (length (filter (\<lambda>e. type e = ''vacation'') yearEntries))
      in \<lparr> totalWorkedMonth = foldl (\<lambda>s e. s + workedMinutes e) 0 monthEntries,
           totalNightMonth = foldl (\<lambda>s e. s + nightMinutes e) 0 monthEntries,
           daysNormal = int (length (filter (\<lambda>e. type e = ''normal'') monthEntries)),
           daysVacation = int (length (filter (\<lambda>e. type e = ''vacation'') monthEntries)),
           daysSick = int (length (filter (\<lambda>e. type e = ''sick'') monthEntries)),
           vacUsedThisYear = vacUsed,
           remaining = max 0 (allowance - vacUsed) \<rparr>)"

text \<open>
  The submit handler of the work form, from the values it reads: the day type, the
  date, the minutes \<open>parseTime\<close> returned for the start and end fields and the pause
  (\<open>parseInt (...) || 0\<close>).  It alerts (\<open>Inl\<close>) when no date is chosen; otherwise the
  result is the entry handed to \<open>upsertEntry\<close>.
\<close>

definition formSubmit :: "string \<Rightarrow> string \<Rightarrow> int \<Rightarrow> int \<Rightarrow> int \<Rightarrow> string + Entry" where
  "formSubmit dayType workDate startMin endMin pauseMin =
     (if workDate = [] then Inl ''Please choose a date.''
      else if dayType \<noteq> ''normal'' then
        Inr \<lparr> date = workDate, type = dayType, workedMinutes = 480, nightMinutes = 0 \<rparr>
      else
        (let totalWorkMin = endMin - startMin - pauseMin;
             totalWorkMin = (if totalWorkMin < 0 then totalWorkMin + 1440 else totalWorkMin);
             nightMin = calcNightMinutes startMin endMin pauseMin
         in Inr \<lparr> date = workDate, type = dayType, workedMinutes = totalWorkMin,
                  nightMinutes = nightMin \<rparr>))"

text \<open>A small cache of entries used to run the summary on concrete data.\<close>

definition exampleEntries :: "Entry list" where
  "exampleEntries =
     [\<lparr> date = ''2025-03-01'', type = ''normal'', workedMinutes = 450, nightMinutes = 450 \<rparr>,
      \<lparr> date = ''2025-03-02'', type = ''vacation'', workedMinutes = 480, nightMinutes = 0 \<rparr>,
      \<lparr> date = ''2025-04-02'', type = ''vacation'', workedMinutes = 480, nightMinutes = 0 \<rparr>,
      \<lparr> date = ''2025-03-05'', type = ''sick'', workedMinutes = 480, nightMinutes = 0 \<rparr>,
      \<lparr> date = ''2024-03-05'', type = ''vacation'', workedMinutes = 480, nightMinutes = 0 \<rparr>]"


section \<open>Properties\<close>

subsection \<open>The night-bonus loop as a count\<close>

text \<open>
  The loop adds to its counter the number of minutes of \<open>[t, e)\<close> that lie outside the
  pause window and pass the night test of the code (on the truncating remainder).
\<close>

lemma nightLoop_count:
  "nightLoop t e ps pe n =
     n + int (length (filter
       (\<lambda>u. \<not> (ps \<le> u \<and> u < pe) \<and> (u smod 1440 < 360 \<or> u smod 1440 \<ge> 1200))
       [t..e - 1]))"
proof (induction t e ps pe n rule: nightLoop.induct)
  case (1 t e ps pe n)
  show ?case
  proof (cases "t < e")
    case False
    then show ?thesis by (simp add: nightLoop.simps [of t e])
  next
    case True
    then have range: "[t..e - 1] = t # [t + 1..e - 1]"
      by (simp add: upto_rec1)
    consider (paused) "ps \<le> t" "t < pe"
      | (night) "\<not> (ps \<le> t \<and> t < pe)" "t smod 1440 < 360 \<or> t smod 1440 \<ge> 1200"
      | (day) "\<not> (ps \<le> t \<and> t < pe)" "\<not> (t smod 1440 < 360 \<or> t smod 1440 \<ge> 1200)"
      by blast
    then show ?thesis
    proof cases
      case paused
      then have "nightLoop t e ps pe n = nightLoop (t + 1) e ps pe n"
        using True by (subst nightLoop.simps) simp
      with paused True "1.IH"(1) range show ?thesis by simp
    next
      case night
      then have "nightLoop t e ps pe n = nightLoop (t + 1) e ps pe (n + 1)"
        using True by (subst nightLoop.simps) (auto simp add: Let_def)
      moreover have "nightLoop (t + 1) e ps pe (n + 1) =
          n + 1 + int (length (filter
            (\<lambda>u. \<not> (ps \<le> u \<and> u < pe) \<and> (u smod 1440 < 360 \<or> u smod 1440 \<ge> 1200))
            [t + 1..e - 1]))"
        using True night by (intro "1.IH"(2) [OF _ _ refl]) auto
      ultimately show ?thesis using night range by auto
    next
      case day
      then have "nightLoop t e ps pe n = nightLoop (t + 1) e ps pe n"
        using True by (subst nightLoop.simps) (auto simp add: Let_def)
      moreover have "nightLoop (t + 1) e ps pe n =
          n + int (length (filter
            (\<lambda>u. \<not> (ps \<le> u \<and> u < pe) \<and> (u smod 1440 < 360 \<or> u smod 1440 \<ge> 1200))
            [t + 1..e - 1]))"
        using True day by (intro "1.IH"(3) [OF _ _ refl]) auto
      ultimately show ?thesis using day range by auto
    qed
  qed
qed

lemma smod_nonneg: "0 \<le> t \<Longrightarrow> t smod 1440 = t mod (1440::int)"
  by (simp add: signed_modulo_int_def sgn_if)


text \<open>
  For all integers, \<open>calcNightMinutes\<close> is the count of the unpaused minutes of the
  wrap-adjusted shift that pass the night test on the truncating remainder.
\<close>

lemma calcNightMinutes_count:
  "calcNightMinutes start endMin pauseMin =
     (let e = (if endMin < start then endMin + 1440 else endMin);
          pauseStart = start + (e - start) div 2 - pauseMin div 2;
          pauseEnd = pauseStart + pauseMin
      in if e - start \<le> 0 then 0
         else int (length (filter
           (\<lambda>t. \<not> (pauseStart \<le> t \<and> t < pauseEnd)
                \<and> (t smod 1440 < 360 \<or> t smod 1440 \<ge> 1200))
           [start..e - 1])))"
  by (simp add: calcNightMinutes_def nightLoop_count Let_def)

lemmas night_eval =
  calcNightMinutes_def nightLoop.simps signed_modulo_int_def Let_def

subsection \<open>Claim C1: the night-bonus algorithm\<close>


text \<open>
  From minute \<open>-240\<close> (20:00 of the day before) on, the night test of the code and the
  specified one agree, and so do the two counts.
\<close>

lemma night_test_agrees:
  assumes "- 240 \<le> (t::int)"
  shows "(t smod 1440 < 360 \<or> t smod 1440 \<ge> 1200)
     \<longleftrightarrow> (t mod 1440 < 360 \<or> t mod 1440 \<ge> 1200)"
proof (cases "0 \<le> t")
  case True
  then show ?thesis by (simp add: smod_nonneg)
next
  case False
  with assms have small: "\<bar>t\<bar> < 1440" by simp
  from False have neg: "t smod 1440 = - (\<bar>t\<bar> mod 1440)"
    by (simp add: signed_modulo_int_def sgn_if)
  from small have "\<bar>t\<bar> mod 1440 = \<bar>t\<bar>" by simp
  with neg False have smod: "t smod 1440 = t" by simp
  from False assms have "(t + 1440) mod 1440 = t + 1440"
    by (intro mod_pos_pos_trivial) simp_all
  then have "t mod 1440 = t + 1440" by simp
  with smod False assms show ?thesis by simp
qed

lemma calcNightMinutes_agrees:
  assumes "- 240 \<le> start"
  shows "calcNightMinutes start endMin pauseMin = specNightMinutes start endMin pauseMin"
proof -
  have "filter (\<lambda>u. \<not> (ps \<le> u \<and> u < pe) \<and> (u smod 1440 < 360 \<or> u smod 1440 \<ge> 1200))
          [start..e - 1]
      = filter (\<lambda>t. \<not> (ps \<le> t \<and> t < pe) \<and> (t mod 1440 < 360 \<or> t mod 1440 \<ge> 1200))
          [start..e - 1]"
    for ps pe e
    using assms by (intro filter_cong refl) (simp add: night_test_agrees)
  then show ?thesis
    by (simp add: calcNightMinutes_def specNightMinutes_def specNightCount_def
        nightLoop_count Let_def)
qed

text \<open>
  A shift from 19:58 to 20:03 with a pause of one minute: the pause takes minute 1200,
  and minutes 1201 and 1202 are night minutes.
\<close>

lemma calcNightMinutes_agrees_example:
  "calcNightMinutes 1198 1203 1 = 2 \<and> specNightMinutes 1198 1203 1 = 2"
proof -
  have "calcNightMinutes 1198 1203 1 = 2"
    by (simp add: night_eval)
  with calcNightMinutes_agrees [of 1198 1203 1] show ?thesis by simp
qed

subsection \<open>Claim C4: the bonus against the shift length\<close>




subsection \<open>Claim C5: the pause window is clamped to the shift\<close>

text \<open>
  Claim C5: for every start, end and pause, the pause minutes that the midpoint formula
  places before the start or at or after the wrap-adjusted end have no effect: the
  result of \<open>calcNightMinutes\<close> is what the loop returns with the pause window replaced
  by its intersection with \<open>[start, end)\<close>.  In particular a pause larger than the
  shift excludes only minutes inside the shift.
\<close>

theorem calcNightMinutes_pause_clamped:
  "calcNightMinutes start endMin pauseMin =
     (let e = (if endMin < start then endMin + 1440 else endMin);
          pauseStart = start + (e - start) div 2 - pauseMin div 2;
          pauseEnd = pauseStart + pauseMin
      in if e - start \<le> 0 then 0
         else nightLoop start e (max start pauseStart) (min e pauseEnd) 0)"
proof -
  have "filter (\<lambda>u. \<not> (ps \<le> u \<and> u < pe) \<and> (u smod 1440 < 360 \<or> u smod 1440 \<ge> 1200))
          [start..e - 1]
      = filter (\<lambda>u. \<not> (max start ps \<le> u \<and> u < min e pe)
                     \<and> (u smod 1440 < 360 \<or> u smod 1440 \<ge> 1200))
          [start..e - 1]"
    for ps pe e
    by (intro filter_cong refl) auto
  then show ?thesis
    by (simp add: calcNightMinutes_def nightLoop_count Let_def)
qed

text \<open>
  A pause of 9 minutes in the shift from 23:58 to 00:03: the window \<open>[1436, 1445)\<close>
  reaches beyond both ends of the shift and acts as \<open>[1438, 1443)\<close>.
\<close>

theorem calcNightMinutes_pause_clamped_witness:
  "calcNightMinutes 1438 3 9 = nightLoop 1438 1443 1438 1443 0
   \<and> nightLoop 1438 1443 1438 1443 0 = 0"
proof -
  have "nightLoop 1438 1443 1438 1443 0 = 0"
    by (simp add: nightLoop.simps)
  with calcNightMinutes_pause_clamped [of 1438 3 9] show ?thesis by simp
qed


subsection \<open>Facts about reading and printing digits\<close>

lemma double_range: "(2::rat) ^ 53 \<le> 2 ^ 1024 - 2 ^ 970"
  by simp

lemma roundToNumber_small: "\<bar>v\<bar> < 2 ^ 53 \<Longrightarrow> roundToNumber v = Finite v"
  using double_range unfolding roundToNumber_def
  by (auto simp only: abs_less_iff split: if_splits)

lemmas number_eval =
  parseTime_def Number_def index_def StringToNumber_def trimString_def isStrWhiteSpaceChar_def
  strUnsignedDecimalLiteral_def nonDecimalIntegerLiteral_def radixOfPrefix_def exponentPart_def
  isDecimalDigit_def digitValue_def digitsValue_def scale10_def roundToNumber_small Let_def

lemma of_char_digitChar: "d < 10 \<Longrightarrow> (of_char (digitChar d) :: nat) = 48 + d"
  by (simp add: digitChar_def)

lemma digitChar_props:
  assumes "d < 10"
  shows "isDecimalDigit (digitChar d)" "digitValue (digitChar d) = d"
    "\<not> isStrWhiteSpaceChar (digitChar d)" "digitChar d \<noteq> CHR '':''"
    "digitChar d \<noteq> CHR ''+''" "digitChar d \<noteq> CHR ''-''" "digitChar d \<noteq> CHR ''I''"
    "radixOfPrefix (digitChar d) = 0"
  using assms of_char_digitChar [OF assms]
  by (auto simp add: isDecimalDigit_def digitValue_def isStrWhiteSpaceChar_def radixOfPrefix_def)

lemma digitChar_0: "digitChar 0 = CHR ''0''"
proof -
  have "(of_char (digitChar 0) :: nat) = of_char CHR ''0''"
    by (simp add: digitChar_def)
  then show ?thesis by (simp only: of_char_eq_iff)
qed

text \<open>A number below 100 is printed and padded to exactly its two decimal digits.\<close>

lemma two_digits:
  assumes "n < 100"
  shows "padStart 2 CHR ''0'' (toString (int n)) = [digitChar (n div 10), digitChar (n mod 10)]"
proof (cases "n < 10")
  case True
  then show ?thesis
    by (simp add: toString_def padStart_def decimalDigits.simps [of n] digitChar_0)
next
  case False
  with assms have "n div 10 < 10" by simp
  with False show ?thesis
    by (simp add: toString_def padStart_def decimalDigits.simps [of n]
        decimalDigits.simps [of "n div 10"])
qed

text \<open>\<open>Number\<close> reads two decimal digits as the number they write, leading zero or not.\<close>

lemma StringToNumber_two_digits:
  assumes "a < 10" "b < 10"
  shows "StringToNumber [digitChar a, digitChar b] = Finite (of_nat (10 * a + b))"
proof -
  have "\<bar>(of_nat (10 * a + b) :: rat)\<bar> < 2 ^ 53"
  proof -
    have "10 * a + b < 100" using assms by simp
    then have "(of_nat (10 * a + b) :: rat) < of_nat 100" by (simp only: of_nat_less_iff)
    then show ?thesis by simp
  qed
  then have "roundToNumber (of_nat (10 * a + b)) = Finite (of_nat (10 * a + b))"
    by (rule roundToNumber_small)
  then show ?thesis
    using digitChar_props [OF assms(1)] digitChar_props [OF assms(2)]
    by (simp add: StringToNumber_def trimString_def strUnsignedDecimalLiteral_def
        nonDecimalIntegerLiteral_def exponentPart_def digitsValue_def scale10_def Let_def)
qed

lemma jsSplit_clock:
  assumes "c1 \<noteq> CHR '':''" "c2 \<noteq> CHR '':''" "c3 \<noteq> CHR '':''" "c4 \<noteq> CHR '':''"
  shows "jsSplit CHR '':'' ([c1, c2] @ '':'' @ [c3, c4]) = [[c1, c2], [c3, c4]]"
  using assms by simp

subsection \<open>Claim C2: malformed clock times\<close>

text \<open>
  Claim C2: \<open>parseTime\<close> raises the invalid-format error on each of \<open>bad\<close>, \<open>:30\<close>,
  \<open>10:\<close> and the empty string.  The code raises it on \<open>bad\<close> and on the empty string
  only.  An empty piece beside a colon is read by \<open>Number\<close> as 0, which is finite, so
  \<open>:30\<close> returns 30 and \<open>10:\<close> returns 600, although \<open>10\<close> without its colon is
  rejected.
\<close>

theorem parseTime_malformed:
  "parseTime ''bad'' = Inl InvalidFormat \<and> parseTime [] = Inl InvalidFormat
   \<and> parseTime '':30'' = Inr (Finite 30) \<and> parseTime ''10:'' = Inr (Finite 600)
   \<and> parseTime ''10'' = Inl InvalidFormat"
  by (simp add: number_eval)

text \<open>
  No range is checked either way: the start and end fields \<open>-9:40\<close> and \<open>-9:41\<close>
  are read as the minutes \<open>-500\<close> and \<open>-499\<close>, which the submit handler hands to
  \<open>calcNightMinutes\<close> as they are.
\<close>

lemma parseTime_negative_clock:
  "parseTime ''-9:40'' = Inr (Finite (- 500)) \<and> parseTime ''-9:41'' = Inr (Finite (- 499))"
  by (simp add: number_eval negateNumber_def)

subsection \<open>Claim C3: printing and reading back\<close>

text \<open>
  Claim C3: for every integer \<open>m\<close> in \<open>[0, 1439]\<close>, \<open>parseTime\<close> applied to
  \<open>formatTime m\<close> returns \<open>m\<close>.
\<close>

theorem parseTime_formatTime:
  assumes "0 \<le> m" "m \<le> 1439"
  shows "parseTime (formatTime m) = Inr (Finite (of_int m))"
proof -
  define h where "h = nat (m div 60)"
  define r where "r = nat (m mod 60)"
  have quot: "0 \<le> m div 60" "m div 60 < 100" and rem: "0 \<le> m mod 60" "m mod 60 < 100"
    using assms by presburger+
  have h: "h < 100" and r: "r < 100"
    using quot rem by (simp_all add: h_def r_def)
  have hm: "m div 60 = int h"
    using quot by (simp add: h_def)
  have "m smod 60 = m mod 60"
    using assms by (simp add: signed_modulo_int_def sgn_if)
  then have rm: "m smod 60 = int r"
    using rem by (simp add: r_def)
  have m: "m = int h * 60 + int r"
    using quot rem by (simp add: h_def r_def)
  have digits: "h div 10 < 10" "h mod 10 < 10" "r div 10 < 10" "r mod 10 < 10"
    using h r by simp_all
  have shown: "formatTime m =
      [digitChar (h div 10), digitChar (h mod 10)] @ '':''
        @ [digitChar (r div 10), digitChar (r mod 10)]"
    by (simp add: formatTime_def hm rm two_digits [OF h] two_digits [OF r])
  have parts: "jsSplit CHR '':'' (formatTime m) =
      [[digitChar (h div 10), digitChar (h mod 10)], [digitChar (r div 10), digitChar (r mod 10)]]"
    unfolding shown by (rule jsSplit_clock) (simp_all add: digitChar_props digits)
  have hv: "StringToNumber [digitChar (h div 10), digitChar (h mod 10)] = Finite (of_nat h)"
    using StringToNumber_two_digits [OF digits(1,2)] by simp
  have rv: "StringToNumber [digitChar (r div 10), digitChar (r mod 10)] = Finite (of_nat r)"
    using StringToNumber_two_digits [OF digits(3,4)] by simp
  have "\<bar>(of_int m :: rat)\<bar> < 2 ^ 53"
  proof -
    have "(of_int m :: rat) < of_int 1440" using assms by simp
    moreover have "(0 :: rat) \<le> of_int m" using assms by simp
    ultimately show ?thesis by simp
  qed
  then have "roundToNumber (of_int m) = Finite (of_int m)"
    by (rule roundToNumber_small)
  moreover have "(of_nat h :: rat) * 60 + of_nat r = of_int m"
    by (simp add: m)
  ultimately show ?thesis
    by (simp add: parseTime_def parts Number_def index_def hv rv)
qed

text \<open>Minute 605 is printed as \<open>10:05\<close>, which is read back as 605.\<close>

theorem parseTime_formatTime_witness:
  "(0::int) \<le> 605 \<and> (605::int) \<le> 1439 \<and> formatTime 605 = ''10:05''
   \<and> parseTime ''10:05'' = Inr (Finite 605)"
proof -
  have shown: "formatTime 605 = ''10:05''"
    by code_simp
  with parseTime_formatTime [of 605] show ?thesis by simp
qed

subsection \<open>Claim C9: no range check on clock values\<close>

text \<open>
  Claim C9: \<open>parseTime\<close> does not validate the ranges of a clock value: \<open>25:99\<close> is
  accepted without error and gives 1599 minutes, 25 times 60 plus 99.
\<close>

theorem parseTime_out_of_range:
  "parseTime ''25:99'' = Inr (Finite 1599) \<and> (1599::rat) = 25 * 60 + 99"
  by (simp add: number_eval)

subsection \<open>Claim C6: worked minutes of a normal entry\<close>

text \<open>
  Claim C6: for every start minute, end minute and pause, the worked minutes stored
  for a normal entry are \<open>endMin - startMin - pauseMin\<close>, with 1440 added exactly
  when that difference is negative.  (The handler stores an entry once a date is
  chosen.)
\<close>

theorem formSubmit_workedMinutes:
  assumes "workDate \<noteq> []"
  shows "map_sum id workedMinutes (formSubmit ''normal'' workDate startMin endMin pauseMin) =
     Inr (if endMin - startMin - pauseMin < 0 then endMin - startMin - pauseMin + 1440
          else endMin - startMin - pauseMin)"
  using assms by (simp add: formSubmit_def Let_def)

text \<open>From 22:00 to 06:00 with a pause of 30 minutes: \<open>360 - 1320 - 30 + 1440 = 450\<close>.\<close>

theorem formSubmit_workedMinutes_witness:
  "''2025-03-01'' \<noteq> [] \<and>
   map_sum id workedMinutes (formSubmit ''normal'' ''2025-03-01'' 1320 360 30) = Inr 450"
  using formSubmit_workedMinutes [where workDate = "''2025-03-01''" and startMin = 1320
      and endMin = 360 and pauseMin = 30]
  by simp

subsection \<open>Claims C7, C8 and C10: the summary\<close>

lemma filter_type_split:
  assumes "\<forall>e \<in> set es. type e \<in> {''normal'', ''vacation'', ''sick''}"
  shows "length (filter (\<lambda>e. type e = ''normal'') es)
       + length (filter (\<lambda>e. type e = ''vacation'') es)
       + length (filter (\<lambda>e. type e = ''sick'') es) = length es"
  using assms by (induction es) auto

text \<open>
  Claim C7: for every collection of entries, every year and every allowance (so
  every allowance that is not negative), the vacation part of \<open>renderSummary\<close> gives
  as used the number of vacation entries whose date begins with the year, and as
  remaining \<open>max (0, allowance - used)\<close>, which is never negative, also when more days
  are used than allowed.
\<close>

theorem renderSummary_vacation:
  "vacUsedThisYear (renderSummary entries yearPicker monthOnly nowYear nowMonth allowance) =
     int (length (filter
       (\<lambda>e. type e = ''vacation'' \<and> take 4 (date e) = pickerValue yearPicker nowYear) entries))
   \<and> remaining (renderSummary entries yearPicker monthOnly nowYear nowMonth allowance) =
     max 0 (allowance
            - vacUsedThisYear (renderSummary entries yearPicker monthOnly nowYear nowMonth allowance))
   \<and> 0 \<le> remaining (renderSummary entries yearPicker monthOnly nowYear nowMonth allowance)"
  by (simp add: renderSummary_def Let_def conj_commute)

text \<open>Two vacation days of 2025 against an allowance of one day: nothing remains.\<close>

theorem renderSummary_vacation_witness:
  "vacUsedThisYear (renderSummary exampleEntries ''2025'' ''03'' ''2026'' ''11'' 1) = 2
   \<and> remaining (renderSummary exampleEntries ''2025'' ''03'' ''2026'' ''11'' 1) = 0"
proof -
  have "int (length (filter
      (\<lambda>e. type e = ''vacation'' \<and> take 4 (date e) = pickerValue ''2025'' ''2026'')
      exampleEntries)) = 2"
    by (simp add: exampleEntries_def pickerValue_def)
  with renderSummary_vacation [where entries = exampleEntries and yearPicker = "''2025''"
      and monthOnly = "''03''" and nowYear = "''2026''" and nowMonth = "''11''"
      and allowance = 1]
  show ?thesis by simp
qed

text \<open>
  Claim C8: over an empty collection of entries, and for every year and month, the
  monthly part of \<open>renderSummary\<close> gives zero worked minutes, zero night minutes and
  zero normal, vacation and sick days.
\<close>

theorem renderSummary_empty:
  "totalWorkedMonth (renderSummary [] yearPicker monthOnly nowYear nowMonth allowance) = 0
   \<and> totalNightMonth (renderSummary [] yearPicker monthOnly nowYear nowMonth allowance) = 0
   \<and> daysNormal (renderSummary [] yearPicker monthOnly nowYear nowMonth allowance) = 0
   \<and> daysVacation (renderSummary [] yearPicker monthOnly nowYear nowMonth allowance) = 0
   \<and> daysSick (renderSummary [] yearPicker monthOnly nowYear nowMonth allowance) = 0"
  by (simp add: renderSummary_def Let_def)

text \<open>
  Claim C10: when every entry has one of the three kinds, the normal, vacation and
  sick day counts of the monthly summary add up to the number of entries whose date
  begins with the selected month: each of them is counted in exactly one bucket.
\<close>

theorem renderSummary_day_counts:
  assumes "\<forall>e \<in> set entries. type e \<in> {''normal'', ''vacation'', ''sick''}"
  shows "daysNormal (renderSummary entries yearPicker monthOnly nowYear nowMonth allowance)
       + daysVacation (renderSummary entries yearPicker monthOnly nowYear nowMonth allowance)
       + daysSick (renderSummary entries yearPicker monthOnly nowYear nowMonth allowance)
       = int (length (filter
           (\<lambda>e. take 7 (date e)
                 = pickerValue yearPicker nowYear @ ''-'' @ pickerValue monthOnly nowMonth)
           entries))"
proof -
  let ?month = "filter
    (\<lambda>e. take 7 (date e) = pickerValue yearPicker nowYear @ ''-'' @ pickerValue monthOnly nowMonth)
    entries"
  have "\<forall>e \<in> set ?month. type e \<in> {''normal'', ''vacation'', ''sick''}"
    using assms by simp
  from filter_type_split [OF this] show ?thesis
    by (simp add: renderSummary_def Let_def)
qed

text \<open>Three of the example entries lie in March 2025: one normal, one vacation, one sick.\<close>

theorem renderSummary_day_counts_witness:
  "list_all (\<lambda>e. type e \<in> {''normal'', ''vacation'', ''sick''}) exampleEntries
   \<and> daysNormal (renderSummary exampleEntries ''2025'' ''03'' ''2026'' ''11'' 1)
     + daysVacation (renderSummary exampleEntries ''2025'' ''03'' ''2026'' ''11'' 1)
     + daysSick (renderSummary exampleEntries ''2025'' ''03'' ''2026'' ''11'' 1) = 3"
proof -
  have kinds: "\<forall>e \<in> set exampleEntries. type e \<in> {''normal'', ''vacation'', ''sick''}"
    by (simp add: exampleEntries_def)
  have "int (length (filter
      (\<lambda>e. take 7 (date e) = pickerValue ''2025'' ''2026'' @ ''-'' @ pickerValue ''03'' ''11'')
      exampleEntries)) = 3"
    by (simp add: exampleEntries_def pickerValue_def)
  with kinds renderSummary_day_counts [OF kinds, where yearPicker = "''2025''"
      and monthOnly = "''03''" and nowYear = "''2026''" and nowMonth = "''11''"
      and allowance = 1]
  show ?thesis by (simp add: list_all_iff)
qed

end
